theory Spec2Isabelle
  imports Complex_Main
begin

section \<open>Zetamac Race: game record, session driver and rating trigger\<close>

text \<open>
  The development embeds three parts of the repository:
  \<^item> the rating functions \<open>getExpectedScore\<close> and \<open>calculateNewElo\<close> and the
    Firestore trigger \<open>calculateEloOnGameEnd\<close> of \<open>functions/index.js\<close>;
  \<^item> the problem generator \<open>generateProblem\<close> of \<open>src/App.jsx\<close>;
  \<^item> the handlers \<open>joinGame\<close>, \<open>startGame\<close>, \<open>handleInputChange\<close>, \<open>endGame\<close> and
    the bot interval of \<open>src/App.jsx\<close>.

  Conventions. JavaScript numbers that the code only ever uses as integers (scores,
  answers, stored ratings, timestamps) are \<open>int\<close>. The rating arithmetic and
  \<open>Math.random()\<close> are carried out over \<open>real\<close>: IEEE double rounding is not
  modelled, \<open>Math.pow(10, y)\<close> is \<open>10 powr y\<close> and \<open>Math.round x\<close> is
  \<open>\<lfloor>x + 1/2\<rfloor>\<close> (ties go up, as in JavaScript). A Firestore \<open>updateDoc\<close> is a list
  of field writes merged into the stored record; a handler returns the write it issues
  (\<open>None\<close> when it returns without writing).
\<close>

subsection \<open>Rating engine (functions/index.js)\<close>

definition Math_round :: "real \<Rightarrow> int" where
  "Math_round x = \<lfloor>x + 1 / 2\<rfloor>"

definition getExpectedScore :: "real \<Rightarrow> real \<Rightarrow> real" where
  "getExpectedScore eloA eloB = 1 / (1 + 10 powr ((eloB - eloA) / 400))"

record elo_pair =
  newEloA :: int
  newEloB :: int

definition calculateNewElo :: "real \<Rightarrow> real \<Rightarrow> real \<Rightarrow> real \<Rightarrow> elo_pair" where
  "calculateNewElo eloA eloB scoreA kFactor =
     (let expectedScoreA = getExpectedScore eloA eloB;
          newA = eloA + kFactor * (scoreA - expectedScoreA);
          newB = eloB + kFactor * ((1 - scoreA) - (1 - expectedScoreA))
      in \<lparr>newEloA = Math_round newA, newEloB = Math_round newB\<rparr>)"

text \<open>
  The rating engine as the specification words it: the expected score formula, and the
  update of each side by \<open>k\<close> times the difference between its score and its own expected
  score, before rounding.
\<close>

definition expectedScore_spec :: "real \<Rightarrow> real \<Rightarrow> real" where
  "expectedScore_spec ratingA ratingB = 1 / (1 + 10 powr ((ratingB - ratingA) / 400))"

definition updateA_spec :: "real \<Rightarrow> real \<Rightarrow> real \<Rightarrow> real \<Rightarrow> real" where
  "updateA_spec ratingA ratingB scoreA k =
     ratingA + k * (scoreA - expectedScore_spec ratingA ratingB)"

definition updateB_spec :: "real \<Rightarrow> real \<Rightarrow> real \<Rightarrow> real \<Rightarrow> real" where
  "updateB_spec ratingA ratingB scoreA k =
     ratingB + k * ((1 - scoreA) - expectedScore_spec ratingB ratingA)"

definition nearest_integer :: "real \<Rightarrow> int \<Rightarrow> bool" where
  "nearest_integer x n \<longleftrightarrow> \<bar>of_int n - x\<bar> \<le> 1 / 2"

text \<open>
  The rating change of each side in a draw between two stored (integer) ratings, and the
  unrounded shift \<open>k * (1/2 - expected)\<close> that \<open>calculateNewElo\<close> adds to side A and
  subtracts from side B.
\<close>

definition draw_gain_A :: "int \<Rightarrow> int \<Rightarrow> real \<Rightarrow> int" where
  "draw_gain_A rA rB k = newEloA (calculateNewElo (of_int rA) (of_int rB) (1 / 2) k) - rA"

definition draw_gain_B :: "int \<Rightarrow> int \<Rightarrow> real \<Rightarrow> int" where
  "draw_gain_B rA rB k = newEloB (calculateNewElo (of_int rA) (of_int rB) (1 / 2) k) - rB"

definition draw_shift :: "int \<Rightarrow> int \<Rightarrow> real \<Rightarrow> real" where
  "draw_shift rA rB k = k * (1 / 2 - getExpectedScore (of_int rA) (of_int rB))"

subsection \<open>Numbers as strings\<close>

text \<open>
  \<open>String(n)\<close> and template interpolation of a number: the decimal digits of an integer,
  with a leading minus sign below zero (JavaScript prints integers this way up to
  \<open>10^21\<close>; the generator's numbers stay below 1201). \<open>String(null)\<close> is \<open>"null"\<close>; a
  field that holds \<open>null\<close> is \<open>None\<close>.
\<close>

definition digit_char :: "nat \<Rightarrow> char" where
  "digit_char d = ''0123456789'' ! d"

fun decimal_nat :: "nat \<Rightarrow> string" where
  "decimal_nat n =
     (if n < 10 then [digit_char n] else decimal_nat (n div 10) @ [digit_char (n mod 10)])"

declare decimal_nat.simps [simp del]

definition decimal_int :: "int \<Rightarrow> string" where
  "decimal_int i = (if i < 0 then CHR ''-'' # decimal_nat (nat (- i)) else decimal_nat (nat i))"

definition String_js :: "int option \<Rightarrow> string" where
  "String_js v = (case v of None \<Rightarrow> ''null'' | Some i \<Rightarrow> decimal_int i)"

subsection \<open>Problem generator (src/App.jsx, generateProblem)\<close>

text \<open>
  The random source is the sequence of values that successive calls of \<open>Math.random()\<close>
  return inside one call of \<open>generateProblem\<close>: \<open>rnd 0\<close> chooses the operation, \<open>rnd 1\<close>
  and \<open>rnd 2\<close> the two numbers, \<open>rnd 3\<close> the display order of a multiplication.
  Indexing \<open>operations\<close> outside the array gives \<open>undefined\<close>, which reaches the
  \<open>default\<close> branch of the switch.
\<close>

definition Math_floor :: "real \<Rightarrow> int" where
  "Math_floor x = \<lfloor>x\<rfloor>"

definition operations :: "string list" where
  "operations = [''+'', ''-'', ''*'', ''/'']"

definition pick_operation :: "real \<Rightarrow> string option" where
  "pick_operation r =
     (let i = Math_floor (r * of_nat (length operations))
      in if 0 \<le> i \<and> i < int (length operations) then Some (operations ! nat i) else None)"

record generated =
  problem :: string
  answer :: int

definition generateProblem :: "(nat \<Rightarrow> real) \<Rightarrow> generated" where
  "generateProblem rnd =
     (let (num1, operation, num2, ans) =
        (case pick_operation (rnd 0) of
           None \<Rightarrow> (0, ''undefined'', 0, 0)
         | Some operation \<Rightarrow>
             if operation = ''+'' \<or> operation = ''-'' then
               let n1 = Math_floor (rnd 1 * 99) + 2;
                   n2 = Math_floor (rnd 2 * 99) + 2;
                   (num1, num2) = (if n1 < n2 then (n2, n1) else (n1, n2))
               in (num1, operation, num2, if operation = ''+'' then num1 + num2 else num1 - num2)
             else if operation = ''*'' then
               let factor1 = Math_floor (rnd 1 * 11) + 2;
                   factor2 = Math_floor (rnd 2 * 99) + 2;
                   (num1, num2) = (if rnd 3 < 1 / 2 then (factor1, factor2) else (factor2, factor1))
               in (num1, operation, num2, num1 * num2)
             else if operation = ''/'' then
               let divisor = Math_floor (rnd 1 * 11) + 2;
                   quotient = Math_floor (rnd 2 * 99) + 2
               in (divisor * quotient, operation, divisor, quotient)
             else (0, operation, 0, 0))
      in \<lparr>problem = decimal_int num1 @ '' '' @ operation @ '' '' @ decimal_int num2,
          answer = ans\<rparr>)"

subsection \<open>Game record and field writes\<close>

datatype game_status = Waiting | Ready | Playing | Finished

record game =
  player1Id :: string
  player1Score :: int
  player1EloAtStart :: int
  player2Id :: "string option"
  player2Score :: int
  player2EloAtStart :: int
  status :: game_status
  opponentType :: string
  currentProblem :: "string option"
  currentAnswer :: "int option"
  startTime :: "int option"
  winnerId :: "string option"
  eloCalculated :: bool
  createdAt :: int
  player1NewElo :: "int option"
  player2NewElo :: "int option"

text \<open>
  The argument of \<open>updateDoc\<close> is an object of fields to overwrite; the store merges it
  into the document and leaves every other field as it is.
\<close>

datatype field_write =
    SetPlayer2Id string
  | SetPlayer2EloAtStart int
  | SetStatus game_status
  | SetStartTime int
  | SetCurrentProblem string
  | SetCurrentAnswer int
  | SetPlayer1Score int
  | SetPlayer2Score int
  | SetWinnerId "string option"
  | SetEloCalculated bool
  | SetPlayer1NewElo int
  | SetPlayer2NewElo int

fun apply_write :: "field_write \<Rightarrow> game \<Rightarrow> game" where
  "apply_write (SetPlayer2Id v) g = g\<lparr>player2Id := Some v\<rparr>"
| "apply_write (SetPlayer2EloAtStart v) g = g\<lparr>player2EloAtStart := v\<rparr>"
| "apply_write (SetStatus v) g = g\<lparr>status := v\<rparr>"
| "apply_write (SetStartTime v) g = g\<lparr>startTime := Some v\<rparr>"
| "apply_write (SetCurrentProblem v) g = g\<lparr>currentProblem := Some v\<rparr>"
| "apply_write (SetCurrentAnswer v) g = g\<lparr>currentAnswer := Some v\<rparr>"
| "apply_write (SetPlayer1Score v) g = g\<lparr>player1Score := v\<rparr>"
| "apply_write (SetPlayer2Score v) g = g\<lparr>player2Score := v\<rparr>"
| "apply_write (SetWinnerId v) g = g\<lparr>winnerId := v\<rparr>"
| "apply_write (SetEloCalculated v) g = g\<lparr>eloCalculated := v\<rparr>"
| "apply_write (SetPlayer1NewElo v) g = g\<lparr>player1NewElo := Some v\<rparr>"
| "apply_write (SetPlayer2NewElo v) g = g\<lparr>player2NewElo := Some v\<rparr>"

definition updateDoc :: "game \<Rightarrow> field_write list \<Rightarrow> game" where
  "updateDoc g ws = fold apply_write ws g"

text \<open>
  What a handler's write does to the stored record once it arrives: nothing when the
  handler returned without writing.
\<close>

definition land :: "game \<Rightarrow> field_write list option \<Rightarrow> game" where
  "land stored w = (case w of None \<Rightarrow> stored | Some ws \<Rightarrow> updateDoc stored ws)"

subsection \<open>Store\<close>

definition STARTING_ELO :: int where
  "STARTING_ELO = 200"

definition ELO_K_FACTOR :: real where
  "ELO_K_FACTOR = 32"

record profile =
  elo :: int
  lastUpdated :: int

text \<open>
  Game documents are keyed by game id, profile documents by user id (the path
  \<open>users/{uid}/profile/{uid}\<close>).
\<close>

record store =
  games :: "string \<rightharpoonup> game"
  profiles :: "string \<rightharpoonup> profile"

definition currentElo :: "(string \<rightharpoonup> profile) \<Rightarrow> string \<Rightarrow> int" where
  "currentElo profs uid = (case profs uid of None \<Rightarrow> STARTING_ELO | Some p \<Rightarrow> elo p)"

text \<open>JavaScript truthiness of an identity field: \<open>null\<close> and the empty string are falsy.\<close>

definition truthy :: "string option \<Rightarrow> bool" where
  "truthy v = (case v of None \<Rightarrow> False | Some s \<Rightarrow> s \<noteq> [])"

subsection \<open>Lobby (src/App.jsx, createGame and joinGame)\<close>

text \<open>
  \<open>createGame\<close> takes the id that \<open>addDoc\<close> assigns, the value of
  \<open>crypto.randomUUID()\<close> and the clock as arguments.
\<close>

definition createGame :: "bool \<Rightarrow> string \<Rightarrow> string \<Rightarrow> string \<Rightarrow> string \<Rightarrow> int \<Rightarrow> store \<Rightarrow> store" where
  "createGame db userId opponent uuid newId now st =
     (if \<not> db \<or> userId = [] then st
      else
        let player1Elo = currentElo (profiles st) userId;
            (p2Id, player2InitialElo) =
              (if opponent = ''bot-1000'' then (Some (''BOT-1000-'' @ uuid), 1000)
               else if opponent = ''bot-2000'' then (Some (''BOT-2000-'' @ uuid), 2000)
               else (None, STARTING_ELO))
        in st\<lparr>games := (games st)(newId \<mapsto>
             \<lparr>player1Id = userId,
              player1Score = 0,
              player1EloAtStart = player1Elo,
              player2Id = p2Id,
              player2Score = 0,
              player2EloAtStart = player2InitialElo,
              status = (if opponent = ''human'' then Waiting else Ready),
              opponentType = opponent,
              currentProblem = None,
              currentAnswer = None,
              startTime = None,
              winnerId = None,
              eloCalculated = False,
              createdAt = now,
              player1NewElo = None,
              player2NewElo = None\<rparr>)\<rparr>)"

text \<open>
  The outcome of \<open>joinGame\<close>: one of its message boxes, or the call of \<open>onJoinGame\<close>
  that takes the user into the game room.
\<close>

datatype join_outcome =
    FirebaseNotReady
  | NoGameId
  | GameNotFound
  | GameFull
  | AlreadyInProgress
  | EnteredRoom

definition joinGame :: "bool \<Rightarrow> string \<Rightarrow> string \<Rightarrow> store \<Rightarrow> join_outcome \<times> store" where
  "joinGame db userId gameId st =
     (if \<not> db \<or> userId = [] then (FirebaseNotReady, st)
      else if gameId = [] then (NoGameId, st)
      else
        case games st gameId of
          None \<Rightarrow> (GameNotFound, st)
        | Some gameData \<Rightarrow>
            if player1Id gameData = userId then (EnteredRoom, st)
            else if truthy (player2Id gameData) \<and> player2Id gameData \<noteq> Some userId
              then (GameFull, st)
            else if status gameData \<noteq> Waiting then (AlreadyInProgress, st)
            else
              let player2Elo = currentElo (profiles st) userId
              in (EnteredRoom,
                  st\<lparr>games := (games st)(gameId \<mapsto>
                    updateDoc gameData
                      [SetPlayer2Id userId, SetPlayer2EloAtStart player2Elo, SetStatus Ready])\<rparr>))"

subsection \<open>Game room (src/App.jsx, GameRoom)\<close>

text \<open>
  Each handler reads the driver's snapshot \<open>game\<close> (\<open>None\<close> before the first snapshot
  arrives) and returns the fields it passes to \<open>updateDoc\<close>. \<open>endGame\<close> and the bot
  interval read the document afresh with \<open>getDoc\<close> first; their argument is what that
  read returned. A write that the store rejects is caught and logged by the handler and
  changes nothing; the handlers below return the write of the successful path.
\<close>

definition startGame :: "string \<Rightarrow> game option \<Rightarrow> int \<Rightarrow> (nat \<Rightarrow> real) \<Rightarrow> field_write list option" where
  "startGame userId snapshot now rnd =
     (case snapshot of
        None \<Rightarrow> None
      | Some g \<Rightarrow>
          if player1Id g \<noteq> userId \<or> status g \<noteq> Ready then None
          else
            let p = generateProblem rnd
            in Some [SetStatus Playing, SetStartTime now,
                     SetCurrentProblem (problem p), SetCurrentAnswer (answer p)])"

datatype feedback = Correct | Incorrect

record input_outcome =
  playerInput :: string
  shown :: "feedback option"
  written :: "field_write list option"

definition handleInputChange :: "string \<Rightarrow> game option \<Rightarrow> string \<Rightarrow> (nat \<Rightarrow> real) \<Rightarrow> input_outcome" where
  "handleInputChange userId snapshot val rnd =
     (case snapshot of
        None \<Rightarrow> \<lparr>playerInput = val, shown = None, written = None\<rparr>
      | Some g \<Rightarrow>
          if status g \<noteq> Playing then \<lparr>playerInput = val, shown = None, written = None\<rparr>
          else
            let expectedAnswerString = String_js (currentAnswer g)
            in if length val = length expectedAnswerString then
                 if val = expectedAnswerString then
                   let newScore = (if userId = player1Id g then player1Score g else player2Score g) + 1;
                       next = generateProblem rnd
                   in \<lparr>playerInput = [], shown = Some Correct,
                       written = Some [SetCurrentProblem (problem next),
                                       SetCurrentAnswer (answer next),
                                       (if userId = player1Id g then SetPlayer1Score newScore
                                        else SetPlayer2Score newScore)]\<rparr>
                 else \<lparr>playerInput = val, shown = Some Incorrect, written = None\<rparr>
               else \<lparr>playerInput = val, shown = None, written = None\<rparr>)"

definition botTick :: "game option \<Rightarrow> field_write list option" where
  "botTick currentDoc =
     (case currentDoc of
        None \<Rightarrow> None
      | Some d \<Rightarrow>
          if status d = Playing then Some [SetPlayer2Score (player2Score d + 1)] else None)"

definition endGame :: "game option \<Rightarrow> field_write list option" where
  "endGame currentDoc =
     (case currentDoc of
        None \<Rightarrow> None
      | Some gameData \<Rightarrow>
          if status gameData = Playing then
            let winner =
                  (if player1Score gameData > player2Score gameData then Some (player1Id gameData)
                   else if player2Score gameData > player1Score gameData then player2Id gameData
                   else None)
            in Some [SetStatus Finished, SetWinnerId winner]
          else None)"

subsection \<open>Rating trigger (functions/index.js, calculateEloOnGameEnd)\<close>

text \<open>
  The trigger receives the document before and after the change. It reads the profiles,
  fills one write batch and commits it. \<open>SetProfile uid e t\<close> is
  \<open>batch.set(ref, {elo: e, lastUpdated: t}, {merge: true})\<close> on the profile of \<open>uid\<close>
  (a profile has no other field), \<open>UpdateGame\<close> is \<open>batch.update\<close> on the game document.
  The two calls of \<open>Date.now()\<close> are the arguments \<open>now1\<close> and \<open>now2\<close>. In a template
  string a \<open>null\<close> identity reads \<open>"null"\<close>.
\<close>

datatype batch_op =
    SetProfile string int int
  | UpdateGame "field_write list"

definition id_text :: "string option \<Rightarrow> string" where
  "id_text v = (case v of None \<Rightarrow> ''null'' | Some s \<Rightarrow> s)"

definition startsWith_bot :: "string \<Rightarrow> bool" where
  "startsWith_bot s = (take 3 s = ''bot'')"

definition calculateEloOnGameEnd ::
    "game \<Rightarrow> game \<Rightarrow> (string \<rightharpoonup> profile) \<Rightarrow> int \<Rightarrow> int \<Rightarrow> batch_op list option" where
  "calculateEloOnGameEnd beforeData afterData profs now1 now2 =
     (if status beforeData = Finished \<or> status afterData \<noteq> Finished \<or> eloCalculated afterData
      then None
      else
        let player1ProfileRef = player1Id afterData;
            player2ProfileRef =
              (if opponentType afterData = ''human'' then Some (id_text (player2Id afterData))
               else None);
            player1CurrentElo = currentElo profs player1ProfileRef;
            player2CurrentElo =
              (if startsWith_bot (opponentType afterData)
               then (if opponentType afterData = ''bot-1000'' then 1000 else 2000)
               else case player2ProfileRef of
                      Some ref \<Rightarrow> currentElo profs ref
                    | None \<Rightarrow> STARTING_ELO);
            scoreA0 = 1 / 2;
            scoreA1 = (if player1Score afterData > player2Score afterData then 1 else scoreA0);
            scoreA = (if player2Score afterData > player1Score afterData then 0 else scoreA1);
            r = calculateNewElo (of_int player1CurrentElo) (of_int player2CurrentElo)
                  scoreA ELO_K_FACTOR
        in Some
             ([SetProfile player1ProfileRef (newEloA r) now1]
              @ (case player2ProfileRef of
                   Some ref \<Rightarrow>
                     if opponentType afterData = ''human''
                     then [SetProfile ref (newEloB r) now2] else []
                 | None \<Rightarrow> [])
              @ [UpdateGame [SetEloCalculated True,
                             SetPlayer1NewElo (newEloA r),
                             SetPlayer2NewElo (newEloB r)]]))"

text \<open>
  \<open>batch.commit()\<close> applies every operation of the batch or none. It fails when the
  store refuses the batch (\<open>ok\<close> false) or when the game document that \<open>batch.update\<close>
  names does not exist; the trigger catches the failure and logs it.
\<close>

fun apply_batch_op :: "string \<Rightarrow> batch_op \<Rightarrow> store \<Rightarrow> store" where
  "apply_batch_op gameId (SetProfile uid e t) st =
     st\<lparr>profiles := (profiles st)(uid \<mapsto> \<lparr>elo = e, lastUpdated = t\<rparr>)\<rparr>"
| "apply_batch_op gameId (UpdateGame ws) st =
     (case games st gameId of
        None \<Rightarrow> st
      | Some g \<Rightarrow> st\<lparr>games := (games st)(gameId \<mapsto> updateDoc g ws)\<rparr>)"

definition commit :: "bool \<Rightarrow> string \<Rightarrow> batch_op list \<Rightarrow> store \<Rightarrow> store" where
  "commit ok gameId batch st =
     (if ok \<and> games st gameId \<noteq> None then fold (apply_batch_op gameId) batch st else st)"

text \<open>One delivery of an update event for the game \<open>gameId\<close> to the trigger.\<close>

definition deliver :: "bool \<Rightarrow> string \<Rightarrow> game \<Rightarrow> game \<Rightarrow> int \<Rightarrow> int \<Rightarrow> store \<Rightarrow> store" where
  "deliver ok gameId beforeData afterData now1 now2 st =
     (case calculateEloOnGameEnd beforeData afterData (profiles st) now1 now2 of
        None \<Rightarrow> st
      | Some batch \<Rightarrow> commit ok gameId batch st)"

subsection \<open>A game against the 1000 bot, used in the examples\<close>

text \<open>
  The game that \<open>createGame\<close> makes for a new user against \<open>bot-1000\<close>
  (\<open>bot_game_ready\<close>, below), the same game while it is played, with the scores 5 and 3
  as the clock runs out, and after \<open>endGame\<close>.
\<close>

definition bot_game_playing :: game where
  "bot_game_playing =
     \<lparr>player1Id = ''alice'',
      player1Score = 5,
      player1EloAtStart = 200,
      player2Id = Some ''BOT-1000-u1'',
      player2Score = 3,
      player2EloAtStart = 1000,
      status = Playing,
      opponentType = ''bot-1000'',
      currentProblem = Some ''357 / 7'',
      currentAnswer = Some 51,
      startTime = Some 1000,
      winnerId = None,
      eloCalculated = False,
      createdAt = 900,
      player1NewElo = None,
      player2NewElo = None\<rparr>"

definition bot_game_finished :: game where
  "bot_game_finished = land bot_game_playing (endGame (Some bot_game_playing))"

definition bot_store :: store where
  "bot_store = \<lparr>games = [''g1'' \<mapsto> bot_game_finished], profiles = Map.empty\<rparr>"

definition bot_game_ready :: game where
  "bot_game_ready =
     \<lparr>player1Id = ''alice'',
      player1Score = 0,
      player1EloAtStart = 200,
      player2Id = Some ''BOT-1000-u1'',
      player2Score = 0,
      player2EloAtStart = 1000,
      status = Ready,
      opponentType = ''bot-1000'',
      currentProblem = None,
      currentAnswer = None,
      startTime = None,
      winnerId = None,
      eloCalculated = False,
      createdAt = 900,
      player1NewElo = None,
      player2NewElo = None\<rparr>"

text \<open>A random source that yields the division problem \<open>357 / 7\<close>.\<close>

definition rnd0 :: "nat \<Rightarrow> real" where
  "rnd0 i = (if i = 0 then 7 / 8 else 1 / 2)"

text \<open>A lobby in which alice has created a game for a human opponent.\<close>

definition empty_store :: store where
  "empty_store = \<lparr>games = Map.empty, profiles = Map.empty\<rparr>"

definition lobby_store :: store where
  "lobby_store = createGame True ''alice'' ''human'' [] ''g2'' 900 empty_store"

text \<open>
  The store after the trigger has rated the finished bot game once, and after it has rated
  it a second time; \<open>t\<close> is the time of the profile write.
\<close>

definition rated_once :: "int \<Rightarrow> store" where
  "rated_once t =
     \<lparr>games = [''g1'' \<mapsto> bot_game_finished\<lparr>eloCalculated := True, player1NewElo := Some 232,
                                           player2NewElo := Some 968\<rparr>],
      profiles = [''alice'' \<mapsto> \<lparr>elo = 232, lastUpdated = t\<rparr>]\<rparr>"

definition rated_twice :: "int \<Rightarrow> store" where
  "rated_twice t =
     \<lparr>games = [''g1'' \<mapsto> bot_game_finished\<lparr>eloCalculated := True, player1NewElo := Some 264,
                                           player2NewElo := Some 968\<rparr>],
      profiles = [''alice'' \<mapsto> \<lparr>elo = 264, lastUpdated = t\<rparr>]\<rparr>"

subsection \<open>Notions of the specification\<close>

text \<open>
  The winner as the specification decides it, by strict comparison of the scores: the
  first participant when its score is higher, the second when its score is higher, nobody
  (\<open>null\<close>) when the scores are equal.
\<close>

definition winner_spec :: "game \<Rightarrow> string option" where
  "winner_spec d =
     (if player1Score d > player2Score d then Some (player1Id d)
      else if player2Score d > player1Score d then player2Id d
      else None)"

text \<open>
  The score of the first participant that the trigger passes to the rating engine (1 for a
  win, 0 for a loss, 1/2 for a draw), and the fixed rating of a bot by its tier.
\<close>

definition scoreA_of :: "game \<Rightarrow> real" where
  "scoreA_of afterData =
     (if player1Score afterData > player2Score afterData then 1
      else if player2Score afterData > player1Score afterData then 0
      else 1 / 2)"

definition bot_rating :: "string \<Rightarrow> real" where
  "bot_rating opponent = (if opponent = ''bot-1000'' then 1000 else 2000)"

definition bot_game_ratings :: "(string \<rightharpoonup> profile) \<Rightarrow> game \<Rightarrow> elo_pair" where
  "bot_game_ratings profs afterData =
     calculateNewElo (of_int (currentElo profs (player1Id afterData)))
       (bot_rating (opponentType afterData)) (scoreA_of afterData) 32"

text \<open>
  The write that a participant's correct answer produces from the snapshot \<open>g\<close>: the
  input is the decimal string of the snapshot's current answer.
\<close>

definition correct_submission :: "string \<Rightarrow> game \<Rightarrow> (nat \<Rightarrow> real) \<Rightarrow> field_write list option" where
  "correct_submission userId g rnd =
     written (handleInputChange userId (Some g) (String_js (currentAnswer g)) rnd)"

section \<open>Rating engine\<close>

lemma complement_frac:
  fixes t :: real
  assumes "0 < t"
  shows "1 - 1 / (1 + t) = 1 / (1 + 1 / t)"
proof -
  have "1 + t \<noteq> 0" "t \<noteq> 0" "t + 1 \<noteq> 0" using assms by linarith+
  then show ?thesis by (simp add: field_simps)
qed

lemma expected_complement: "1 - getExpectedScore a b = getExpectedScore b a"
proof -
  have pos: "0 < 10 powr ((b - a) / 400)" by simp
  have "(a - b) / 400 = - ((b - a) / 400)" by argo
  then have inv: "10 powr ((a - b) / 400) = 1 / 10 powr ((b - a) / 400)"
    by (simp only: powr_minus_divide)
  show ?thesis
    unfolding getExpectedScore_def inv by (rule complement_frac [OF pos])
qed

lemma Math_round_nearest: "nearest_integer x (Math_round x)"
  unfolding nearest_integer_def Math_round_def by linarith

lemma calculateNewElo_200_1000: "calculateNewElo 200 1000 1 32 = \<lparr>newEloA = 232, newEloB = 968\<rparr>"
  by (simp add: calculateNewElo_def getExpectedScore_def Math_round_def Let_def)

text \<open>
  Claim C5. For all ratings, every score of side A (so in particular 0, 1/2 and 1) and
  every k, \<open>getExpectedScore\<close> is the formula \<open>1 / (1 + 10^((ratingB - ratingA)/400))\<close>,
  and \<open>calculateNewElo\<close> returns \<open>ratingA + k * (scoreA - expectedScore(ratingA, ratingB))\<close>
  and \<open>ratingB + k * ((1 - scoreA) - expectedScore(ratingB, ratingA))\<close>, each rounded to
  a nearest integer (a tie goes up). The result is a function of the four arguments alone.
  The code computes the second component with \<open>1 - expectedScore(ratingA, ratingB)\<close> in
  place of \<open>expectedScore(ratingB, ratingA)\<close>; the two are equal.
\<close>

theorem calculateNewElo_refines_spec:
  "getExpectedScore a b = expectedScore_spec a b
   \<and> newEloA (calculateNewElo a b s k) = Math_round (updateA_spec a b s k)
   \<and> newEloB (calculateNewElo a b s k) = Math_round (updateB_spec a b s k)
   \<and> nearest_integer (updateA_spec a b s k) (newEloA (calculateNewElo a b s k))
   \<and> nearest_integer (updateB_spec a b s k) (newEloB (calculateNewElo a b s k))"
proof -
  have e: "getExpectedScore a b = expectedScore_spec a b" for a b
    by (simp add: getExpectedScore_def expectedScore_spec_def)
  have A: "newEloA (calculateNewElo a b s k) = Math_round (updateA_spec a b s k)"
    by (simp add: calculateNewElo_def Let_def updateA_spec_def e)
  have "b + k * ((1 - s) - (1 - getExpectedScore a b)) = updateB_spec a b s k"
    unfolding updateB_spec_def e [symmetric] expected_complement ..
  then have B: "newEloB (calculateNewElo a b s k) = Math_round (updateB_spec a b s k)"
    by (simp add: calculateNewElo_def Let_def)
  show ?thesis using e A B Math_round_nearest by simp
qed

theorem calculateNewElo_refines_spec_witness:
  "newEloA (calculateNewElo 200 1000 1 32) = 232
   \<and> Math_round (updateA_spec 200 1000 1 32) = 232
   \<and> newEloB (calculateNewElo 200 1000 1 32) = 968
   \<and> Math_round (updateB_spec 200 1000 1 32) = 968"
  using calculateNewElo_refines_spec [of 200 1000 1 32]
  by (simp add: calculateNewElo_200_1000)

subsection \<open>The draw adjustment\<close>

lemma floor_pair_zero:
  fixes y :: real
  shows "\<lfloor>y\<rfloor> + \<lfloor>1 - y\<rfloor> = 0 \<longleftrightarrow> y \<notin> \<int>"
proof (cases "y \<in> \<int>")
  case True
  then obtain m :: int where "y = of_int m" by (auto elim: Ints_cases)
  then have "\<lfloor>y\<rfloor> = m" "\<lfloor>1 - y\<rfloor> = 1 - m" by linarith+
  with True show ?thesis by simp
next
  case False
  then have "of_int \<lfloor>y\<rfloor> \<noteq> y" by (metis Ints_of_int)
  then have "of_int \<lfloor>y\<rfloor> < y" using of_int_floor_le [of y] by linarith
  then have "\<lfloor>1 - y\<rfloor> = - \<lfloor>y\<rfloor>" by linarith
  with False show ?thesis by simp
qed

lemma draw_gain_A_floor: "draw_gain_A rA rB k = \<lfloor>draw_shift rA rB k + 1 / 2\<rfloor>"
proof -
  have "of_int rA + k * (1 / 2 - getExpectedScore (of_int rA) (of_int rB)) + 1 / 2
      = (draw_shift rA rB k + 1 / 2) + of_int rA"
    by (simp add: draw_shift_def)
  then have "newEloA (calculateNewElo (of_int rA) (of_int rB) (1 / 2) k)
      = \<lfloor>(draw_shift rA rB k + 1 / 2) + of_int rA\<rfloor>"
    by (simp only: calculateNewElo_def Let_def Math_round_def elo_pair.simps)
  also have "\<dots> = \<lfloor>draw_shift rA rB k + 1 / 2\<rfloor> + rA"
    by (simp only: floor_add_int)
  finally show ?thesis by (simp add: draw_gain_A_def)
qed

lemma draw_gain_B_floor: "draw_gain_B rA rB k = \<lfloor>1 - (draw_shift rA rB k + 1 / 2)\<rfloor>"
proof -
  have "of_int rB + k * ((1 - 1 / 2) - (1 - getExpectedScore (of_int rA) (of_int rB))) + 1 / 2
      = (1 - (draw_shift rA rB k + 1 / 2)) + of_int rB"
    by (simp add: draw_shift_def algebra_simps)
  then have "newEloB (calculateNewElo (of_int rA) (of_int rB) (1 / 2) k)
      = \<lfloor>(1 - (draw_shift rA rB k + 1 / 2)) + of_int rB\<rfloor>"
    by (simp only: calculateNewElo_def Let_def Math_round_def elo_pair.simps)
  also have "\<dots> = \<lfloor>1 - (draw_shift rA rB k + 1 / 2)\<rfloor> + rB"
    by (simp only: floor_add_int)
  finally show ?thesis by (simp add: draw_gain_B_def)
qed

lemma draw_zero_sum_iff:
  "draw_gain_A rA rB k = - draw_gain_B rA rB k \<longleftrightarrow> draw_shift rA rB k + 1 / 2 \<notin> \<int>"
  unfolding draw_gain_A_floor draw_gain_B_floor
  using floor_pair_zero [of "draw_shift rA rB k + 1 / 2"] by linarith

lemma odd_power_mismatch:
  fixes n :: int and e :: nat
  assumes odd: "odd n" and pos: "0 < n" and lt: "n < 64"
  shows "n ^ 400 * 10 ^ e \<noteq> (64 - n) ^ 400" and "n ^ 400 \<noteq> (64 - n) ^ 400 * 10 ^ Suc e"
proof -
  have odd': "odd (64 - n)" using odd by simp
  show "n ^ 400 * 10 ^ e \<noteq> (64 - n) ^ 400"
  proof (cases e)
    case 0
    have "n \<noteq> 64 - n" using odd by presburger
    moreover have "0 \<le> n" "0 \<le> 64 - n" using pos lt by simp_all
    ultimately have "n ^ 400 \<noteq> (64 - n) ^ 400"
      using power_eq_iff_eq_base [of 400 n "64 - n"] by simp
    with 0 show ?thesis by simp
  next
    case (Suc e')
    then have "even (n ^ 400 * 10 ^ e)" by simp
    moreover have "odd ((64 - n) ^ 400)" using odd' by simp
    ultimately show ?thesis by metis
  qed
  have "even ((64 - n) ^ 400 * 10 ^ Suc e)" by simp
  moreover have "odd (n ^ 400)" using odd by simp
  ultimately show "n ^ 400 \<noteq> (64 - n) ^ 400 * 10 ^ Suc e" by metis
qed

lemma ten_powr_int:
  fixes x :: int
  shows "0 \<le> x \<Longrightarrow> (10::real) powr of_int x = 10 ^ nat x"
    and "x < 0 \<Longrightarrow> (10::real) powr of_int x * 10 ^ nat (- x) = 1"
proof -
  show "0 \<le> x \<Longrightarrow> (10::real) powr of_int x = 10 ^ nat x"
    using powr_realpow [of "10::real" "nat x"] by simp
  assume neg: "x < 0"
  have "(10::real) powr of_int x = 10 powr (- real (nat (- x)))" using neg by simp
  also have "\<dots> = 1 / 10 ^ nat (- x)"
    using powr_realpow [of "10::real" "nat (- x)"] by (simp add: powr_minus_divide)
  finally show "(10::real) powr of_int x * 10 ^ nat (- x) = 1" by simp
qed

text \<open>
  With the K-factor 32 the shift of a draw between integer ratings is never an odd
  multiple of 1/2: that would make \<open>64 / (1 + 10^(x/400))\<close> an odd integer \<open>n\<close> for the
  integer rating difference \<open>x\<close>, hence \<open>n^400 * 10^x = (64 - n)^400\<close>, which fails by
  parity (and by \<open>n \<noteq> 32\<close> when \<open>x = 0\<close>).
\<close>

lemma draw_shift_32_not_half: "draw_shift rA rB 32 + 1 / 2 \<notin> \<int>"
proof
  assume "draw_shift rA rB 32 + 1 / 2 \<in> \<int>"
  then obtain m :: int where m: "draw_shift rA rB 32 + 1 / 2 = of_int m"
    by (auto elim: Ints_cases)
  define x :: int where "x = rB - rA"
  define t :: real where "t = 10 powr (of_int x / 400)"
  define n :: int where "n = 33 - 2 * m"
  have tpos: "0 < t" by (simp add: t_def)
  have E: "getExpectedScore (of_int rA) (of_int rB) = 1 / (1 + t)"
    by (simp add: getExpectedScore_def t_def x_def)
  have "32 * (1 / 2 - 1 / (1 + t)) + 1 / 2 = of_int m"
    using m by (simp add: draw_shift_def E)
  then have "64 / (1 + t) = of_int n" by (simp add: n_def algebra_simps)
  then have prod: "of_int n * (1 + t) = 64" using tpos by (simp add: field_simps)
  have npos: "0 < n"
  proof (rule ccontr)
    assume "\<not> 0 < n"
    then have "real_of_int n \<le> 0" by simp
    then have "of_int n * (1 + t) \<le> 0" using tpos by (simp add: mult_le_0_iff)
    with prod show False by simp
  qed
  have "real_of_int n < of_int n * (1 + t)"
    using npos tpos by (simp add: algebra_simps)
  with prod have nlt: "n < 64" by simp
  have odd: "odd n" by (simp add: n_def)
  have nt: "of_int n * t = of_int (64 - n)" using prod by (simp add: algebra_simps)
  have "t ^ 400 = t powr 400" using tpos by (simp add: powr_numeral [symmetric] del: powr_numeral)
  also have "\<dots> = 10 powr of_int x" by (simp add: t_def powr_powr)
  finally have t400: "t ^ 400 = 10 powr of_int x" .
  have "(of_int n * t) ^ 400 = real_of_int ((64 - n) ^ 400)" by (simp only: nt of_int_power)
  then have key: "real_of_int (n ^ 400) * 10 powr of_int x = real_of_int ((64 - n) ^ 400)"
    by (simp only: power_mult_distrib t400 of_int_power)
  show False
  proof (cases "0 \<le> x")
    case True
    then have "real_of_int (n ^ 400) * 10 powr of_int x = real_of_int (n ^ 400 * 10 ^ nat x)"
      by (simp add: ten_powr_int(1))
    with key have "n ^ 400 * 10 ^ nat x = (64 - n) ^ 400" by (simp only: of_int_eq_iff)
    with odd_power_mismatch(1) [OF odd npos nlt] show False by blast
  next
    case False
    then have neg: "x < 0" by simp
    then obtain e where e: "nat (- x) = Suc e" by (cases "nat (- x)") auto
    have inv: "10 powr real_of_int x * 10 ^ Suc e = 1"
      using ten_powr_int(2) [OF neg] by (simp only: e)
    have "real_of_int (n ^ 400) = real_of_int (n ^ 400) * (10 powr of_int x * 10 ^ Suc e)"
      by (simp only: inv mult_1_right)
    also have "\<dots> = (real_of_int (n ^ 400) * 10 powr of_int x) * 10 ^ Suc e"
      by (simp only: mult.assoc)
    also have "\<dots> = real_of_int ((64 - n) ^ 400) * 10 ^ Suc e"
      by (simp only: key)
    also have "\<dots> = real_of_int ((64 - n) ^ 400 * 10 ^ Suc e)"
      by simp
    finally have "real_of_int (n ^ 400) = real_of_int ((64 - n) ^ 400 * 10 ^ Suc e)" .
    then have "n ^ 400 = (64 - n) ^ 400 * 10 ^ Suc e" by (simp only: of_int_eq_iff)
    with odd_power_mismatch(2) [OF odd npos nlt] show False by blast
  qed
qed

text \<open>
  Claim C6, as the code has it. With the K-factor 32 that the trigger passes, a draw
  (\<open>scoreA = 1/2\<close>) between any two integer ratings \<open>rA\<close>, \<open>rB\<close> gives
  \<open>newA - rA = -(newB - rB)\<close>: the unrounded shift is never an odd multiple of 1/2, so
  \<open>Math.round\<close> takes from one side exactly what it gives to the other.
\<close>

theorem draw_zero_sum_k32:
  "newEloA (calculateNewElo (of_int rA) (of_int rB) (1 / 2) ELO_K_FACTOR) - rA
     = - (newEloB (calculateNewElo (of_int rA) (of_int rB) (1 / 2) ELO_K_FACTOR) - rB)"
proof -
  have "draw_gain_A rA rB 32 = - draw_gain_B rA rB 32"
    using draw_zero_sum_iff [of rA rB 32] draw_shift_32_not_half [of rA rB] by simp
  then show ?thesis by (simp add: draw_gain_A_def draw_gain_B_def ELO_K_FACTOR_def)
qed

lemma calculateNewElo_draw_200_1000:
  "calculateNewElo 200 1000 (1 / 2) 32 = \<lparr>newEloA = 216, newEloB = 984\<rparr>"
  by (simp add: calculateNewElo_def getExpectedScore_def Math_round_def Let_def)

theorem draw_zero_sum_k32_witness:
  "calculateNewElo 200 1000 (1 / 2) ELO_K_FACTOR = \<lparr>newEloA = 216, newEloB = 984\<rparr>
   \<and> newEloA (calculateNewElo 200 1000 (1 / 2) ELO_K_FACTOR) - 200
       = - (newEloB (calculateNewElo 200 1000 (1 / 2) ELO_K_FACTOR) - 1000)"
  using draw_zero_sum_k32 [of 200 1000]
  by (simp add: ELO_K_FACTOR_def calculateNewElo_draw_200_1000)

text \<open>
  The claim as stated (every k > 0) fails: in a draw between the ratings 1000 and 1400
  with \<open>k = 11\<close> the expected score is 1/11 and the shift is exactly 4.5, so side A is
  rounded up to 1005 and side B up to 1396: A gains 5 points and B loses 4.
\<close>

theorem draw_zero_sum_counterexample:
  "(0::real) < 11
   \<and> calculateNewElo 1000 1400 (1 / 2) 11 = \<lparr>newEloA = 1005, newEloB = 1396\<rparr>
   \<and> draw_gain_A 1000 1400 11 = 5
   \<and> draw_gain_B 1000 1400 11 = - 4
   \<and> draw_gain_A 1000 1400 11 \<noteq> - draw_gain_B 1000 1400 11"
  by (simp add: draw_gain_A_def draw_gain_B_def calculateNewElo_def getExpectedScore_def
      Math_round_def Let_def)

section \<open>Problem generator\<close>

lemma random_index_range:
  fixes r :: real
  assumes "0 \<le> r" "r < 1" "0 < n"
  shows "0 \<le> Math_floor (r * of_int n)" "Math_floor (r * of_int n) \<le> n - 1"
proof -
  have "0 \<le> r * of_int n" using assms by simp
  then show "0 \<le> Math_floor (r * of_int n)" by (simp add: Math_floor_def)
  have "r * of_int n < of_int n" using assms by simp
  then have "\<lfloor>r * of_int n\<rfloor> < n" by (simp add: floor_less_iff)
  then show "Math_floor (r * of_int n) \<le> n - 1" by (simp add: Math_floor_def)
qed

lemma generateProblem_division_eq:
  assumes "pick_operation (rnd 0) = Some ''/''"
  shows "generateProblem rnd =
    \<lparr>problem = decimal_int ((Math_floor (rnd 1 * 11) + 2) * (Math_floor (rnd 2 * 99) + 2))
                 @ '' / '' @ decimal_int (Math_floor (rnd 1 * 11) + 2),
     answer = Math_floor (rnd 2 * 99) + 2\<rparr>"
  by (simp add: generateProblem_def assms Let_def)

lemma generateProblem_rnd0: "generateProblem rnd0 = \<lparr>problem = ''357 / 7'', answer = 51\<rparr>"
  by (simp add: rnd0_def generateProblem_def pick_operation_def operations_def Math_floor_def
      decimal_int_def decimal_nat.simps digit_char_def)

lemma generateProblem_division_covers:
  assumes d: "2 \<le> d" "d \<le> 12" and q: "2 \<le> q" "q \<le> 100"
  shows "\<exists>rnd. (\<forall>i. 0 \<le> rnd i \<and> rnd i < 1)
           \<and> pick_operation (rnd 0) = Some ''/''
           \<and> Math_floor (rnd 1 * 11) + 2 = d
           \<and> Math_floor (rnd 2 * 99) + 2 = q
           \<and> generateProblem rnd =
               \<lparr>problem = decimal_int (d * q) @ '' / '' @ decimal_int d, answer = q\<rparr>"
proof -
  define rnd :: "nat \<Rightarrow> real" where
    "rnd i = (if i = 0 then 7 / 8
              else if i = 1 then (of_int (d - 2) + 1 / 2) / 11
              else (of_int (q - 2) + 1 / 2) / 99)" for i
  have range: "0 \<le> rnd i \<and> rnd i < 1" for i
    using d q by (simp add: rnd_def)
  have op: "pick_operation (rnd 0) = Some ''/''"
    by (simp add: rnd_def pick_operation_def operations_def Math_floor_def)
  have m1: "rnd 1 * 11 = of_int (d - 2) + 1 / 2" by (simp add: rnd_def)
  have "Math_floor (rnd 1 * 11) = d - 2" unfolding m1 Math_floor_def by linarith
  then have fd: "Math_floor (rnd 1 * 11) + 2 = d" by simp
  have m2: "rnd 2 * 99 = of_int (q - 2) + 1 / 2" by (simp add: rnd_def)
  have "Math_floor (rnd 2 * 99) = q - 2" unfolding m2 Math_floor_def by linarith
  then have fq: "Math_floor (rnd 2 * 99) + 2 = q" by simp
  have "generateProblem rnd =
      \<lparr>problem = decimal_int (d * q) @ '' / '' @ decimal_int d, answer = q\<rparr>"
    using generateProblem_division_eq [of rnd, OF op] by (simp only: fd fq)
  with range op fd fq show ?thesis by blast
qed

lemma decimal_int_1200_12: "decimal_int 1200 = ''1200''" "decimal_int 12 = ''12''"
  by (simp_all add: decimal_int_def decimal_nat.simps digit_char_def)

text \<open>
  Claim C7. Whenever the generator picks the division and \<open>Math.random()\<close> returns
  values in \<open>[0, 1)\<close>: the divisor is the second draw scaled to \<open>[2, 12]\<close>, the quotient
  the third draw scaled to \<open>[2, 100]\<close>; the generator returns the text of the dividend
  \<open>divisor * quotient\<close>, the division sign and the divisor, with the quotient as the
  answer; and the dividend is an exact multiple of the divisor, with that quotient.
  Moreover every divisor in \<open>[2, 12]\<close> and every quotient in \<open>[2, 100]\<close> is drawn by some
  random source, so the two ranges are exactly those.
\<close>

theorem generateProblem_division:
  assumes op: "pick_operation (rnd 0) = Some ''/''"
    and r1: "0 \<le> rnd 1" "rnd 1 < 1" and r2: "0 \<le> rnd 2" "rnd 2 < 1"
  shows "(let divisor = Math_floor (rnd 1 * 11) + 2;
              quotient = Math_floor (rnd 2 * 99) + 2
          in 2 \<le> divisor \<and> divisor \<le> 12 \<and> 2 \<le> quotient \<and> quotient \<le> 100
             \<and> generateProblem rnd =
                 \<lparr>problem = decimal_int (divisor * quotient) @ '' / '' @ decimal_int divisor,
                  answer = quotient\<rparr>
             \<and> (divisor * quotient) mod divisor = 0
             \<and> (divisor * quotient) div divisor = quotient)
   \<and> (\<forall>d q. 2 \<le> d \<and> d \<le> 12 \<and> 2 \<le> q \<and> q \<le> 100 \<longrightarrow>
         (\<exists>rnd'. (\<forall>i. 0 \<le> rnd' i \<and> rnd' i < 1)
            \<and> pick_operation (rnd' 0) = Some ''/''
            \<and> Math_floor (rnd' 1 * 11) + 2 = d
            \<and> Math_floor (rnd' 2 * 99) + 2 = q
            \<and> generateProblem rnd' =
                \<lparr>problem = decimal_int (d * q) @ '' / '' @ decimal_int d, answer = q\<rparr>))"
proof -
  define divisor where "divisor = Math_floor (rnd 1 * 11) + 2"
  define quotient where "quotient = Math_floor (rnd 2 * 99) + 2"
  have d: "2 \<le> divisor" "divisor \<le> 12"
    using random_index_range [OF r1, of 11] by (simp_all add: divisor_def)
  have q: "2 \<le> quotient" "quotient \<le> 100"
    using random_index_range [OF r2, of 99] by (simp_all add: quotient_def)
  have g: "generateProblem rnd =
      \<lparr>problem = decimal_int (divisor * quotient) @ '' / '' @ decimal_int divisor,
       answer = quotient\<rparr>"
    unfolding divisor_def quotient_def by (rule generateProblem_division_eq [of rnd, OF op])
  have "divisor \<noteq> 0" using d by simp
  then have "(divisor * quotient) div divisor = quotient" by simp
  with d q g have first: "2 \<le> divisor \<and> divisor \<le> 12 \<and> 2 \<le> quotient \<and> quotient \<le> 100
             \<and> generateProblem rnd =
                 \<lparr>problem = decimal_int (divisor * quotient) @ '' / '' @ decimal_int divisor,
                  answer = quotient\<rparr>
             \<and> (divisor * quotient) mod divisor = 0
             \<and> (divisor * quotient) div divisor = quotient"
    by simp
  show ?thesis
    using first generateProblem_division_covers
    unfolding divisor_def quotient_def Let_def by blast
qed

theorem generateProblem_division_witness:
  "pick_operation (rnd0 0) = Some ''/''
   \<and> 0 \<le> rnd0 1 \<and> rnd0 1 < 1 \<and> 0 \<le> rnd0 2 \<and> rnd0 2 < 1
   \<and> Math_floor (rnd0 1 * 11) + 2 = 7
   \<and> Math_floor (rnd0 2 * 99) + 2 = 51
   \<and> generateProblem rnd0 = \<lparr>problem = ''357 / 7'', answer = 51\<rparr>
   \<and> (\<exists>rnd'. (\<forall>i. 0 \<le> rnd' i \<and> rnd' i < 1)
          \<and> pick_operation (rnd' 0) = Some ''/''
          \<and> Math_floor (rnd' 1 * 11) + 2 = 12
          \<and> Math_floor (rnd' 2 * 99) + 2 = 100
          \<and> generateProblem rnd' = \<lparr>problem = ''1200 / 12'', answer = 100\<rparr>)"
proof -
  have h: "pick_operation (rnd0 0) = Some ''/''"
    by (simp add: rnd0_def pick_operation_def operations_def Math_floor_def)
  have r: "0 \<le> rnd0 1" "rnd0 1 < 1" "0 \<le> rnd0 2" "rnd0 2 < 1" by (simp_all add: rnd0_def)
  have v: "Math_floor (rnd0 1 * 11) + 2 = 7" "Math_floor (rnd0 2 * 99) + 2 = 51"
    by (simp_all add: rnd0_def Math_floor_def)
  note t = generateProblem_division [of rnd0, OF h r, unfolded Let_def v]
  from t have a: "generateProblem rnd0 =
      \<lparr>problem = decimal_int (7 * 51) @ '' / '' @ decimal_int 7, answer = 51\<rparr>"
    by blast
  from t [THEN conjunct2, rule_format, of 12 100]
  have "\<exists>rnd'. (\<forall>i. 0 \<le> rnd' i \<and> rnd' i < 1)
          \<and> pick_operation (rnd' 0) = Some ''/''
          \<and> Math_floor (rnd' 1 * 11) + 2 = 12
          \<and> Math_floor (rnd' 2 * 99) + 2 = 100
          \<and> generateProblem rnd' =
              \<lparr>problem = decimal_int (12 * 100) @ '' / '' @ decimal_int 12, answer = 100\<rparr>"
    by simp
  then have b: "\<exists>rnd'. (\<forall>i. 0 \<le> rnd' i \<and> rnd' i < 1)
          \<and> pick_operation (rnd' 0) = Some ''/''
          \<and> Math_floor (rnd' 1 * 11) + 2 = 12
          \<and> Math_floor (rnd' 2 * 99) + 2 = 100
          \<and> generateProblem rnd' = \<lparr>problem = ''1200 / 12'', answer = 100\<rparr>"
    by (simp add: decimal_int_1200_12)
  from a have c: "generateProblem rnd0 = \<lparr>problem = ''357 / 7'', answer = 51\<rparr>"
    by (simp only: generateProblem_rnd0)
  from h r v b c show ?thesis by (simp only: simp_thms)
qed

section \<open>Lobby\<close>

lemma joinGame_player1:
  assumes "db" "userId \<noteq> []" "gameId \<noteq> []" "games st gameId = Some g" "player1Id g = userId"
  shows "joinGame db userId gameId st = (EnteredRoom, st)"
  using assms by (simp add: joinGame_def)

lemma joinGame_not_waiting:
  assumes "db" "userId \<noteq> []" "gameId \<noteq> []" "games st gameId = Some g"
    and "player1Id g \<noteq> userId" "status g \<noteq> Waiting"
  shows "joinGame db userId gameId st =
     (if truthy (player2Id g) \<and> player2Id g \<noteq> Some userId then GameFull else AlreadyInProgress, st)"
  using assms by (simp add: joinGame_def)

lemma joinGame_waiting:
  assumes "db" "userId \<noteq> []" "gameId \<noteq> []" "games st gameId = Some g"
    and "player1Id g \<noteq> userId" "status g = Waiting"
    and "\<not> truthy (player2Id g) \<or> player2Id g = Some userId"
  shows "joinGame db userId gameId st =
     (EnteredRoom,
      st\<lparr>games := (games st)(gameId \<mapsto>
         g\<lparr>player2Id := Some userId, player2EloAtStart := currentElo (profiles st) userId,
           status := Ready\<rparr>)\<rparr>)"
  using assms by (auto simp add: joinGame_def updateDoc_def Let_def)

lemma lobby_game:
  "games lobby_store ''g2'' =
     Some (bot_game_ready\<lparr>player2Id := None, player2EloAtStart := 200,
                          status := Waiting, opponentType := ''human''\<rparr>)"
  by (simp add: lobby_store_def createGame_def empty_store_def bot_game_ready_def currentElo_def
      STARTING_ELO_def Let_def)

lemma createGame_bot:
  "games (createGame True ''alice'' ''bot-1000'' ''u1'' ''g1'' 900 empty_store) ''g1''
     = Some bot_game_ready"
  by (simp add: createGame_def empty_store_def bot_game_ready_def currentElo_def
      STARTING_ELO_def Let_def)

text \<open>
  Claim C10. For a signed-in user and an existing game: the first participant is taken
  into the room whatever the status and nothing is written; any other user is turned
  away without a write once the status is no longer \<open>waiting\<close>, and the bound second
  participant in particular gets the "already in progress" message, because the status
  test follows the test of the second participant's identity; and right after a
  successful join of a waiting game, the same user's next \<open>joinGame\<close> is answered with
  "already in progress" and writes nothing.
\<close>

theorem joinGame_rejoin:
  assumes db: "db" and uid: "userId \<noteq> []" and gid: "gameId \<noteq> []"
    and game: "games st gameId = Some g"
  shows "(player1Id g = userId \<longrightarrow> joinGame db userId gameId st = (EnteredRoom, st))
   \<and> (player1Id g \<noteq> userId \<and> status g \<noteq> Waiting \<and> player2Id g = Some userId \<longrightarrow>
        joinGame db userId gameId st = (AlreadyInProgress, st))
   \<and> (player1Id g \<noteq> userId \<and> status g \<noteq> Waiting \<longrightarrow>
        fst (joinGame db userId gameId st) \<noteq> EnteredRoom
        \<and> snd (joinGame db userId gameId st) = st)
   \<and> (player1Id g \<noteq> userId \<and> status g = Waiting \<and> player2Id g = None \<longrightarrow>
        fst (joinGame db userId gameId st) = EnteredRoom
        \<and> joinGame db userId gameId (snd (joinGame db userId gameId st))
            = (AlreadyInProgress, snd (joinGame db userId gameId st)))"
proof -
  have 1: "joinGame db userId gameId st = (EnteredRoom, st)" if "player1Id g = userId"
    using joinGame_player1 [OF db uid gid game that] .
  have 2: "joinGame db userId gameId st = (AlreadyInProgress, st)"
    if "player1Id g \<noteq> userId" "status g \<noteq> Waiting" "player2Id g = Some userId"
    using joinGame_not_waiting [OF db uid gid game that(1,2)] that(3) by simp
  have 3: "fst (joinGame db userId gameId st) \<noteq> EnteredRoom
           \<and> snd (joinGame db userId gameId st) = st"
    if "player1Id g \<noteq> userId" "status g \<noteq> Waiting"
    using joinGame_not_waiting [OF db uid gid game that] by simp
  have 4: "fst (joinGame db userId gameId st) = EnteredRoom
        \<and> joinGame db userId gameId (snd (joinGame db userId gameId st))
            = (AlreadyInProgress, snd (joinGame db userId gameId st))"
    if p1: "player1Id g \<noteq> userId" and w: "status g = Waiting" and p2: "player2Id g = None"
  proof -
    define g' where "g' = g\<lparr>player2Id := Some userId,
        player2EloAtStart := currentElo (profiles st) userId, status := Ready\<rparr>"
    define st' where "st' = st\<lparr>games := (games st)(gameId \<mapsto> g')\<rparr>"
    have "\<not> truthy (player2Id g) \<or> player2Id g = Some userId"
      using p2 by (simp add: truthy_def)
    from joinGame_waiting [OF db uid gid game p1 w this]
    have first: "joinGame db userId gameId st = (EnteredRoom, st')"
      by (simp add: st'_def g'_def)
    have g': "games st' gameId = Some g'" by (simp add: st'_def)
    have "player1Id g' \<noteq> userId" "status g' \<noteq> Waiting" using p1 by (simp_all add: g'_def)
    from joinGame_not_waiting [OF db uid gid g' this]
    have "joinGame db userId gameId st' = (AlreadyInProgress, st')"
      by (simp add: g'_def)
    with first show ?thesis by simp
  qed
  show ?thesis using 1 2 3 4 by blast
qed

theorem joinGame_rejoin_witness:
  "fst (joinGame True ''bob'' ''g2'' lobby_store) = EnteredRoom
   \<and> joinGame True ''bob'' ''g2'' (snd (joinGame True ''bob'' ''g2'' lobby_store))
       = (AlreadyInProgress, snd (joinGame True ''bob'' ''g2'' lobby_store))
   \<and> joinGame True ''alice'' ''g2'' lobby_store = (EnteredRoom, lobby_store)"
  using joinGame_rejoin [of True "''bob''" "''g2''" lobby_store, OF _ _ _ lobby_game]
    joinGame_rejoin [of True "''alice''" "''g2''" lobby_store, OF _ _ _ lobby_game]
  by (simp add: bot_game_ready_def)

section \<open>Game room\<close>

subsection \<open>Starting the game\<close>

text \<open>
  Claim C3. \<open>startGame\<close> writes only when the caller is the first participant of the
  record it sees and that record is \<open>ready\<close>; otherwise (another identity, another
  status, or no record yet) it issues no write and the stored record keeps every field.
  When it writes, it sets the status to \<open>playing\<close>, the start time to the clock and the
  problem and answer to one generated pair, and touches nothing else.
\<close>

theorem startGame_guarded:
  "land stored (startGame userId None now rnd) = stored
   \<and> land stored (startGame userId (Some g) now rnd) =
       (if player1Id g = userId \<and> status g = Ready
        then stored\<lparr>status := Playing, startTime := Some now,
                    currentProblem := Some (problem (generateProblem rnd)),
                    currentAnswer := Some (answer (generateProblem rnd))\<rparr>
        else stored)
   \<and> (startGame userId (Some g) now rnd = None
        \<longleftrightarrow> \<not> (player1Id g = userId \<and> status g = Ready))"
  by (auto simp add: startGame_def land_def updateDoc_def Let_def)

theorem startGame_guarded_witness:
  "land bot_game_ready (startGame ''alice'' (Some bot_game_ready) 1000 rnd0) =
     bot_game_ready\<lparr>status := Playing, startTime := Some 1000,
                    currentProblem := Some ''357 / 7'', currentAnswer := Some 51\<rparr>
   \<and> land bot_game_ready (startGame ''mallory'' (Some bot_game_ready) 1000 rnd0) = bot_game_ready
   \<and> land bot_game_playing (startGame ''alice'' (Some bot_game_playing) 2000 rnd0)
       = bot_game_playing"
  using startGame_guarded [of bot_game_ready "''alice''" 1000 rnd0 bot_game_ready]
    startGame_guarded [of bot_game_ready "''mallory''" 1000 rnd0 bot_game_ready]
    startGame_guarded [of bot_game_playing "''alice''" 2000 rnd0 bot_game_playing]
  by (simp add: generateProblem_rnd0 bot_game_ready_def bot_game_playing_def land_def)

subsection \<open>Submitting an answer\<close>

lemma String_js_7: "String_js (Some 7) = ''7''"
  by (simp add: String_js_def decimal_int_def decimal_nat.simps digit_char_def)

lemma String_js_51: "String_js (Some 51) = ''51''"
  by (simp add: String_js_def decimal_int_def decimal_nat.simps digit_char_def)

lemma handleInputChange_correct:
  assumes "status g = Playing" "val = String_js (currentAnswer g)"
  shows "handleInputChange userId (Some g) val rnd =
     \<lparr>playerInput = [], shown = Some Correct,
      written = Some [SetCurrentProblem (problem (generateProblem rnd)),
                      SetCurrentAnswer (answer (generateProblem rnd)),
                      (if userId = player1Id g then SetPlayer1Score (player1Score g + 1)
                       else SetPlayer2Score (player2Score g + 1))]\<rparr>"
  using assms by (simp add: handleInputChange_def Let_def)

lemma handleInputChange_wrong:
  assumes "val \<noteq> String_js (currentAnswer g)"
  shows "written (handleInputChange userId (Some g) val rnd) = None"
  using assms by (simp add: handleInputChange_def Let_def)

lemma handleInputChange_other_length:
  assumes "length val \<noteq> length (String_js (currentAnswer g))"
  shows "handleInputChange userId (Some g) val rnd =
     \<lparr>playerInput = val, shown = None, written = None\<rparr>"
  using assms by (simp add: handleInputChange_def Let_def)

lemma handleInputChange_not_playing:
  assumes "status g \<noteq> Playing"
  shows "handleInputChange userId (Some g) val rnd =
     \<lparr>playerInput = val, shown = None, written = None\<rparr>"
  using assms by (simp add: handleInputChange_def Let_def)

text \<open>
  Claim C9. While the record is \<open>playing\<close>: the handler judges an input (shows
  "Correct!" or "Incorrect!") exactly when its length is that of the decimal string of
  the current answer; it writes exactly when the input equals that string; the write
  replaces the problem and answer and sets the submitter's score to its value in the
  record plus one, leaving the other fields; any other input, of whatever length, leaves
  the stored record as it is; and for the answer 7 the input \<open>007\<close> is not accepted while
  \<open>7\<close> is.
\<close>

theorem answer_exact_match:
  assumes playing: "status g = Playing"
  shows "(written (handleInputChange userId (Some g) val rnd) \<noteq> None
            \<longleftrightarrow> val = String_js (currentAnswer g))
   \<and> (shown (handleInputChange userId (Some g) val rnd) \<noteq> None
            \<longleftrightarrow> length val = length (String_js (currentAnswer g)))
   \<and> (val = String_js (currentAnswer g) \<longrightarrow>
         land g (written (handleInputChange userId (Some g) val rnd)) =
           (if userId = player1Id g
            then g\<lparr>currentProblem := Some (problem (generateProblem rnd)),
                   currentAnswer := Some (answer (generateProblem rnd)),
                   player1Score := player1Score g + 1\<rparr>
            else g\<lparr>currentProblem := Some (problem (generateProblem rnd)),
                   currentAnswer := Some (answer (generateProblem rnd)),
                   player2Score := player2Score g + 1\<rparr>))
   \<and> (val \<noteq> String_js (currentAnswer g) \<longrightarrow>
         land stored (written (handleInputChange userId (Some g) val rnd)) = stored)
   \<and> (currentAnswer g = Some 7 \<longrightarrow>
         written (handleInputChange userId (Some g) ''007'' rnd) = None
         \<and> written (handleInputChange userId (Some g) ''7'' rnd) \<noteq> None)"
proof -
  have 1: "written (handleInputChange userId (Some g) val rnd) \<noteq> None
            \<longleftrightarrow> val = String_js (currentAnswer g)"
    using playing by (simp add: handleInputChange_def Let_def)
  have 2: "shown (handleInputChange userId (Some g) val rnd) \<noteq> None
            \<longleftrightarrow> length val = length (String_js (currentAnswer g))"
    using playing by (simp add: handleInputChange_def Let_def)
  have 3: "land g (written (handleInputChange userId (Some g) val rnd)) =
           (if userId = player1Id g
            then g\<lparr>currentProblem := Some (problem (generateProblem rnd)),
                   currentAnswer := Some (answer (generateProblem rnd)),
                   player1Score := player1Score g + 1\<rparr>
            else g\<lparr>currentProblem := Some (problem (generateProblem rnd)),
                   currentAnswer := Some (answer (generateProblem rnd)),
                   player2Score := player2Score g + 1\<rparr>)"
    if "val = String_js (currentAnswer g)"
    using handleInputChange_correct [OF playing that, of userId rnd]
    by (simp add: land_def updateDoc_def)
  have 4: "land stored (written (handleInputChange userId (Some g) val rnd)) = stored"
    if "val \<noteq> String_js (currentAnswer g)"
    using handleInputChange_wrong [OF that] by (simp add: land_def)
  have 5: "written (handleInputChange userId (Some g) ''007'' rnd) = None
         \<and> written (handleInputChange userId (Some g) ''7'' rnd) \<noteq> None"
    if "currentAnswer g = Some 7"
    using playing that by (simp add: handleInputChange_def Let_def String_js_7)
  show ?thesis using 1 2 3 4 5 by blast
qed

theorem answer_exact_match_witness:
  "land bot_game_playing (written (handleInputChange ''alice'' (Some bot_game_playing) ''51'' rnd0))
     = bot_game_playing\<lparr>currentProblem := Some ''357 / 7'', currentAnswer := Some 51,
                        player1Score := 6\<rparr>
   \<and> land bot_game_playing (written (handleInputChange ''alice'' (Some bot_game_playing) ''051'' rnd0))
       = bot_game_playing
   \<and> land bot_game_playing (written (handleInputChange ''alice'' (Some bot_game_playing) ''5'' rnd0))
       = bot_game_playing
   \<and> written (handleInputChange ''alice'' (Some (bot_game_playing\<lparr>currentAnswer := Some 7\<rparr>))
        ''007'' rnd0) = None"
proof -
  have p: "status bot_game_playing = Playing" "player1Id bot_game_playing = ''alice''"
    "currentAnswer bot_game_playing = Some 51" "player1Score bot_game_playing = 5"
    by (simp_all add: bot_game_playing_def)
  have q: "status (bot_game_playing\<lparr>currentAnswer := Some 7\<rparr>) = Playing"
    by (simp add: bot_game_playing_def)
  show ?thesis
    using answer_exact_match [OF p(1), of "''alice''" "''51''" rnd0 bot_game_playing]
      answer_exact_match [OF p(1), of "''alice''" "''051''" rnd0 bot_game_playing]
      answer_exact_match [OF p(1), of "''alice''" "''5''" rnd0 bot_game_playing]
      answer_exact_match [OF q, of "''alice''" "''007''" rnd0 bot_game_playing]
    by (simp add: p String_js_51 String_js_7 generateProblem_rnd0 land_def)
qed

subsection \<open>Score writes and the snapshot they are computed from\<close>

lemma correct_submission_eq:
  assumes "status g = Playing"
  shows "correct_submission userId g rnd =
     Some [SetCurrentProblem (problem (generateProblem rnd)),
           SetCurrentAnswer (answer (generateProblem rnd)),
           (if userId = player1Id g then SetPlayer1Score (player1Score g + 1)
            else SetPlayer2Score (player2Score g + 1))]"
  using handleInputChange_correct [OF assms refl, of userId rnd]
  by (simp add: correct_submission_def)

lemma botTick_playing:
  assumes "status d = Playing"
  shows "botTick (Some d) = Some [SetPlayer2Score (player2Score d + 1)]"
  using assms by (simp add: botTick_def)

text \<open>
  Claim C2, as the code has it. A correct answer writes the submitter's score as the
  value in the driver's snapshot plus one, to the submitter's own score field (the first
  participant's field for \<open>player1Id\<close>, the second's for anybody else), and a bot tick
  writes the second score it has just read plus one; no write is relative to the value
  the store holds when it arrives. Since the two participants write different fields,
  two correct answers computed from the same snapshot are both reflected, in either
  order of arrival and whatever the store holds in between: the final scores are the
  snapshot's scores plus one each.
\<close>

theorem score_writes_from_snapshot:
  assumes playing: "status g = Playing" and other: "p2 \<noteq> player1Id g"
  shows "correct_submission (player1Id g) g rnd1 =
           Some [SetCurrentProblem (problem (generateProblem rnd1)),
                 SetCurrentAnswer (answer (generateProblem rnd1)),
                 SetPlayer1Score (player1Score g + 1)]
   \<and> correct_submission p2 g rnd2 =
           Some [SetCurrentProblem (problem (generateProblem rnd2)),
                 SetCurrentAnswer (answer (generateProblem rnd2)),
                 SetPlayer2Score (player2Score g + 1)]
   \<and> botTick (Some g) = Some [SetPlayer2Score (player2Score g + 1)]
   \<and> player1Score (land (land stored (correct_submission (player1Id g) g rnd1))
                        (correct_submission p2 g rnd2)) = player1Score g + 1
   \<and> player2Score (land (land stored (correct_submission (player1Id g) g rnd1))
                        (correct_submission p2 g rnd2)) = player2Score g + 1
   \<and> player1Score (land (land stored (correct_submission p2 g rnd2))
                        (correct_submission (player1Id g) g rnd1)) = player1Score g + 1
   \<and> player2Score (land (land stored (correct_submission p2 g rnd2))
                        (correct_submission (player1Id g) g rnd1)) = player2Score g + 1"
proof -
  have w1: "correct_submission (player1Id g) g rnd1 =
           Some [SetCurrentProblem (problem (generateProblem rnd1)),
                 SetCurrentAnswer (answer (generateProblem rnd1)),
                 SetPlayer1Score (player1Score g + 1)]"
    using correct_submission_eq [OF playing, of "player1Id g" rnd1] by simp
  have w2: "correct_submission p2 g rnd2 =
           Some [SetCurrentProblem (problem (generateProblem rnd2)),
                 SetCurrentAnswer (answer (generateProblem rnd2)),
                 SetPlayer2Score (player2Score g + 1)]"
    using correct_submission_eq [OF playing, of p2 rnd2] other by simp
  show ?thesis
    unfolding w1 w2 botTick_playing [OF playing] by (simp add: land_def updateDoc_def)
qed

theorem score_writes_from_snapshot_witness:
  "correct_submission ''alice'' bot_game_playing rnd0 =
     Some [SetCurrentProblem ''357 / 7'', SetCurrentAnswer 51, SetPlayer1Score 6]
   \<and> correct_submission ''bob'' bot_game_playing rnd0 =
     Some [SetCurrentProblem ''357 / 7'', SetCurrentAnswer 51, SetPlayer2Score 4]
   \<and> botTick (Some bot_game_playing) = Some [SetPlayer2Score 4]
   \<and> player1Score (land (land bot_game_playing (correct_submission ''alice'' bot_game_playing rnd0))
                        (correct_submission ''bob'' bot_game_playing rnd0)) = 6
   \<and> player2Score (land (land bot_game_playing (correct_submission ''alice'' bot_game_playing rnd0))
                        (correct_submission ''bob'' bot_game_playing rnd0)) = 4"
proof -
  have p: "status bot_game_playing = Playing" "player1Id bot_game_playing = ''alice''"
    "player1Score bot_game_playing = 5" "player2Score bot_game_playing = 3"
    by (simp_all add: bot_game_playing_def)
  have o: "''bob'' \<noteq> player1Id bot_game_playing" by (simp add: p)
  show ?thesis
    using score_writes_from_snapshot [OF p(1) o, of rnd0 rnd0 bot_game_playing]
    by (simp add: p generateProblem_rnd0 land_def updateDoc_def)
qed

text \<open>
  The claim as stated fails: the writes are no deltas. Two correct answers of the same
  participant computed from one snapshot (two sessions of one user), or two bot ticks that
  both read the record before either write arrives, raise the score by one, not by two.
\<close>

theorem score_delta_counterexample:
  "status bot_game_playing = Playing
   \<and> player1Score bot_game_playing = 5
   \<and> player1Score (land (land bot_game_playing (correct_submission ''alice'' bot_game_playing rnd0))
                        (correct_submission ''alice'' bot_game_playing rnd0)) = 6
   \<and> player2Score bot_game_playing = 3
   \<and> player2Score (land (land bot_game_playing (botTick (Some bot_game_playing)))
                        (botTick (Some bot_game_playing))) = 4"
proof -
  have p: "status bot_game_playing = Playing" "player1Id bot_game_playing = ''alice''"
    "player1Score bot_game_playing = 5" "player2Score bot_game_playing = 3"
    by (simp_all add: bot_game_playing_def)
  show ?thesis
    unfolding correct_submission_eq [OF p(1)] botTick_playing [OF p(1)]
    by (simp add: p land_def updateDoc_def)
qed

subsection \<open>Ending the game\<close>

text \<open>
  Claim C4. \<open>endGame\<close> writes only when the record it has just read is \<open>playing\<close>;
  otherwise, or when the record does not exist, the stored record keeps every field. When
  it writes, one update sets the status to \<open>finished\<close> and the winner to the
  specification's choice by strict comparison of the scores, and nothing else. A
  finalizer that reads the record after that update has arrived writes nothing.
\<close>

theorem endGame_guarded:
  "land stored (endGame None) = stored
   \<and> (status d \<noteq> Playing \<longrightarrow>
        endGame (Some d) = None \<and> land stored (endGame (Some d)) = stored)
   \<and> (status d = Playing \<longrightarrow>
        endGame (Some d) = Some [SetStatus Finished, SetWinnerId (winner_spec d)]
        \<and> land stored (endGame (Some d)) = stored\<lparr>status := Finished, winnerId := winner_spec d\<rparr>)
   \<and> endGame (Some (land d (endGame (Some d)))) = None"
  by (auto simp add: endGame_def land_def updateDoc_def Let_def winner_spec_def)

theorem endGame_guarded_witness:
  "endGame (Some bot_game_playing) = Some [SetStatus Finished, SetWinnerId (Some ''alice'')]
   \<and> bot_game_finished = bot_game_playing\<lparr>status := Finished, winnerId := Some ''alice''\<rparr>
   \<and> endGame (Some bot_game_finished) = None
   \<and> land bot_game_finished (endGame (Some bot_game_finished)) = bot_game_finished
   \<and> endGame (Some (bot_game_playing\<lparr>player1Score := 3\<rparr>))
       = Some [SetStatus Finished, SetWinnerId None]"
proof -
  have q: "status (bot_game_playing\<lparr>player1Score := 3\<rparr>) = Playing"
    "winner_spec (bot_game_playing\<lparr>player1Score := 3\<rparr>) = None"
    by (simp_all add: bot_game_playing_def winner_spec_def)
  have f: "endGame (Some (bot_game_playing\<lparr>player1Score := 3\<rparr>))
       = Some [SetStatus Finished, SetWinnerId None]"
    using endGame_guarded [of bot_game_playing "bot_game_playing\<lparr>player1Score := 3\<rparr>"] q
    by metis
  have p: "status bot_game_playing = Playing" "winner_spec bot_game_playing = Some ''alice''"
    by (simp_all add: bot_game_playing_def winner_spec_def)
  have a: "endGame (Some bot_game_playing) = Some [SetStatus Finished, SetWinnerId (Some ''alice'')]"
    and b: "land bot_game_playing (endGame (Some bot_game_playing))
        = bot_game_playing\<lparr>status := Finished, winnerId := Some ''alice''\<rparr>"
    and c: "endGame (Some (land bot_game_playing (endGame (Some bot_game_playing)))) = None"
    using endGame_guarded [of bot_game_playing bot_game_playing] p by metis+
  have d: "bot_game_finished = bot_game_playing\<lparr>status := Finished, winnerId := Some ''alice''\<rparr>"
    using b by (simp only: bot_game_finished_def)
  have e: "endGame (Some bot_game_finished) = None"
    using c by (simp only: bot_game_finished_def)
  have "land bot_game_finished (endGame (Some bot_game_finished)) = bot_game_finished"
    by (simp only: e land_def option.case)
  with a d e f show ?thesis by (simp only: simp_thms)
qed

section \<open>Rating trigger\<close>

lemma ten_powr_48_25: "63 < (10::real) powr (48 / 25)"
proof (rule ccontr)
  define t :: real where "t = 10 powr (48 / 25)"
  assume "\<not> 63 < (10::real) powr (48 / 25)"
  then have le: "t \<le> 63" by (simp add: t_def)
  have tpos: "0 < t" by (simp add: t_def)
  have "t ^ 25 = t powr 25" using tpos by (simp add: powr_numeral [symmetric] del: powr_numeral)
  also have "\<dots> = 10 powr 48" by (simp add: t_def powr_powr)
  also have "\<dots> = 10 ^ 48" by simp
  finally have eq: "t ^ 25 = 10 ^ 48" .
  have "t ^ 25 \<le> 63 ^ 25" using le tpos by (intro power_mono) simp_all
  with eq have "(10::real) ^ 48 \<le> 63 ^ 25" by simp
  then show False by simp
qed

lemma calculateNewElo_232_1000: "calculateNewElo 232 1000 1 32 = \<lparr>newEloA = 264, newEloB = 968\<rparr>"
proof -
  define t :: real where "t = 10 powr (48 / 25)"
  define E :: real where "E = 1 / (1 + t)"
  have t: "63 < t" using ten_powr_48_25 by (simp add: t_def)
  have E: "getExpectedScore 232 1000 = E" by (simp add: getExpectedScore_def E_def t_def)
  have bounds: "0 < E" "E < 1 / 64" using t by (simp_all add: E_def field_simps)
  have A: "\<lfloor>232 + 32 * (1 - E) + 1 / 2\<rfloor> = 264"
    using bounds by (intro floor_unique) simp_all
  have B: "\<lfloor>1000 + 32 * ((1 - 1) - (1 - E)) + 1 / 2\<rfloor> = 968"
    using bounds by (intro floor_unique) simp_all
  from A B show ?thesis by (simp add: calculateNewElo_def Let_def E Math_round_def)
qed

lemma bot_game_finished_eq:
  "bot_game_finished = bot_game_playing\<lparr>status := Finished, winnerId := Some ''alice''\<rparr>"
  by (simp add: bot_game_finished_def land_def updateDoc_def endGame_def bot_game_playing_def)

text \<open>
  The guard of the trigger: it fills a batch exactly on a change into \<open>finished\<close> whose
  new state has \<open>eloCalculated\<close> false, and a delivery that fails the guard leaves the
  store as it is. Both the previous and the new state are the ones the event carries.
\<close>

lemma trigger_guard:
  "calculateEloOnGameEnd beforeData afterData profs now1 now2 \<noteq> None
     \<longleftrightarrow> status beforeData \<noteq> Finished \<and> status afterData = Finished \<and> \<not> eloCalculated afterData"
  by (simp add: calculateEloOnGameEnd_def Let_def)

lemma deliver_guard:
  assumes "status beforeData = Finished \<or> status afterData \<noteq> Finished \<or> eloCalculated afterData"
  shows "deliver ok gameId beforeData afterData now1 now2 st = st"
  using assms by (auto simp add: deliver_def calculateEloOnGameEnd_def)

lemma deliver_failed:
  "deliver False gameId beforeData afterData now1 now2 st = st"
  by (simp add: deliver_def commit_def split: option.split)

lemma bot_batch:
  assumes "status beforeData \<noteq> Finished" "status afterData = Finished" "\<not> eloCalculated afterData"
    and "startsWith_bot (opponentType afterData)"
  shows "calculateEloOnGameEnd beforeData afterData profs now1 now2 =
    Some [SetProfile (player1Id afterData) (newEloA (bot_game_ratings profs afterData)) now1,
          UpdateGame [SetEloCalculated True,
                      SetPlayer1NewElo (newEloA (bot_game_ratings profs afterData)),
                      SetPlayer2NewElo (newEloB (bot_game_ratings profs afterData))]]"
proof -
  have "opponentType afterData \<noteq> ''human''"
    using assms(4) by (auto simp add: startsWith_bot_def)
  then show ?thesis
    using assms
    by (simp add: calculateEloOnGameEnd_def Let_def ELO_K_FACTOR_def bot_rating_def scoreA_of_def
        bot_game_ratings_def)
qed

lemma bot_deliver:
  assumes "status beforeData \<noteq> Finished" "status afterData = Finished" "\<not> eloCalculated afterData"
    and "startsWith_bot (opponentType afterData)" and "games st gameId = Some g"
  shows "deliver True gameId beforeData afterData now1 now2 st =
      st\<lparr>profiles := (profiles st)(player1Id afterData \<mapsto>
             \<lparr>elo = newEloA (bot_game_ratings (profiles st) afterData), lastUpdated = now1\<rparr>),
         games := (games st)(gameId \<mapsto>
             g\<lparr>eloCalculated := True,
               player1NewElo := Some (newEloA (bot_game_ratings (profiles st) afterData)),
               player2NewElo := Some (newEloB (bot_game_ratings (profiles st) afterData))\<rparr>)\<rparr>"
  by (simp add: deliver_def bot_batch [OF assms(1-4)] commit_def assms(5) updateDoc_def)

lemma bot_game_ratings_first:
  "bot_game_ratings Map.empty bot_game_finished = \<lparr>newEloA = 232, newEloB = 968\<rparr>"
  by (simp add: bot_game_ratings_def bot_game_finished_eq bot_game_playing_def currentElo_def
      STARTING_ELO_def bot_rating_def scoreA_of_def calculateNewElo_200_1000)

lemma bot_game_ratings_second:
  "bot_game_ratings [''alice'' \<mapsto> \<lparr>elo = 232, lastUpdated = t\<rparr>] bot_game_finished
     = \<lparr>newEloA = 264, newEloB = 968\<rparr>"
  by (simp add: bot_game_ratings_def bot_game_finished_eq bot_game_playing_def currentElo_def
      bot_rating_def scoreA_of_def calculateNewElo_232_1000)

lemma bot_event:
  "status bot_game_playing \<noteq> Finished" "status bot_game_finished = Finished"
  "\<not> eloCalculated bot_game_finished" "startsWith_bot (opponentType bot_game_finished)"
  "player1Id bot_game_finished = ''alice''"
  by (simp_all add: bot_game_finished_eq bot_game_playing_def startsWith_bot_def)

lemma first_delivery:
  "deliver True ''g1'' bot_game_playing bot_game_finished t1 t2 bot_store = rated_once t1"
proof -
  have g: "games bot_store ''g1'' = Some bot_game_finished" by (simp add: bot_store_def)
  show ?thesis
    unfolding bot_deliver [OF bot_event(1-4) g]
    by (simp add: bot_store_def bot_game_ratings_first bot_event(5) rated_once_def)
qed

lemma second_delivery:
  "deliver True ''g1'' bot_game_playing bot_game_finished t3 t4 (rated_once t1) = rated_twice t3"
proof -
  have g: "games (rated_once t1) ''g1'' =
      Some (bot_game_finished\<lparr>eloCalculated := True, player1NewElo := Some 232,
                              player2NewElo := Some 968\<rparr>)"
    by (simp add: rated_once_def)
  have p: "profiles (rated_once t1) = [''alice'' \<mapsto> \<lparr>elo = 232, lastUpdated = t1\<rparr>]"
    by (simp add: rated_once_def)
  show ?thesis
    unfolding bot_deliver [OF bot_event(1-4) g] p bot_game_ratings_second
    by (simp add: rated_once_def rated_twice_def bot_event(5))
qed

text \<open>
  Claim C1. The guard is as the claim says (\<open>deliver_guard\<close>), but it does not make a
  repeated delivery harmless. The event of the bot game's finish carries the new state
  with \<open>eloCalculated\<close> false. Its first delivery sets alice's rating to 232 and the
  flag on the stored game. Its second delivery carries the same two states, so the guard
  passes again; the trigger reads the rating 232 it has just written, and commits a
  second batch that raises the rating to 264 and overwrites \<open>player1NewElo\<close>.
\<close>

theorem redelivery_runs_again:
  "deliver True ''g1'' bot_game_playing bot_game_finished 5000 5000 bot_store = rated_once 5000
   \<and> deliver True ''g1'' bot_game_playing bot_game_finished 6000 6000 (rated_once 5000)
       = rated_twice 6000
   \<and> map_option eloCalculated (games (rated_once 5000) ''g1'') = Some True
   \<and> map_option elo (profiles (rated_once 5000) ''alice'') = Some 232
   \<and> map_option elo (profiles (rated_twice 6000) ''alice'') = Some 264
   \<and> map_option player1NewElo (games (rated_once 5000) ''g1'') = Some (Some 232)
   \<and> map_option player1NewElo (games (rated_twice 6000) ''g1'') = Some (Some 264)"
proof -
  have "map_option eloCalculated (games (rated_once 5000) ''g1'') = Some True"
    "map_option elo (profiles (rated_once 5000) ''alice'') = Some 232"
    "map_option elo (profiles (rated_twice 6000) ''alice'') = Some 264"
    "map_option player1NewElo (games (rated_once 5000) ''g1'') = Some (Some 232)"
    "map_option player1NewElo (games (rated_twice 6000) ''g1'') = Some (Some 264)"
    by (simp_all add: rated_once_def rated_twice_def)
  with first_delivery [of 5000 5000] second_delivery [of 6000 6000 5000]
  show ?thesis by (simp only: simp_thms)
qed

text \<open>
  Claim C8, as the code has it. When the trigger proceeds on a game against a bot, a
  successful commit sets the first participant's profile to the new rating and, on the
  stored game, \<open>eloCalculated\<close> and both new-rating fields, \<open>player2NewElo\<close>
  included, and nothing else; a failed commit leaves the store as it is; and in either
  case no profile other than the first participant's changes, so no rating record is
  written for the bot.
\<close>

theorem bot_game_rating_write:
  assumes "status beforeData \<noteq> Finished" "status afterData = Finished" "\<not> eloCalculated afterData"
    and "startsWith_bot (opponentType afterData)" and "games st gameId = Some g"
  shows "deliver True gameId beforeData afterData now1 now2 st =
      st\<lparr>profiles := (profiles st)(player1Id afterData \<mapsto>
             \<lparr>elo = newEloA (bot_game_ratings (profiles st) afterData), lastUpdated = now1\<rparr>),
         games := (games st)(gameId \<mapsto>
             g\<lparr>eloCalculated := True,
               player1NewElo := Some (newEloA (bot_game_ratings (profiles st) afterData)),
               player2NewElo := Some (newEloB (bot_game_ratings (profiles st) afterData))\<rparr>)\<rparr>
   \<and> deliver False gameId beforeData afterData now1 now2 st = st
   \<and> (\<forall>uid. uid \<noteq> player1Id afterData \<longrightarrow>
         profiles (deliver ok gameId beforeData afterData now1 now2 st) uid = profiles st uid)"
proof -
  note d = bot_deliver [OF assms, of now1 now2]
  have "profiles (deliver ok gameId beforeData afterData now1 now2 st) uid = profiles st uid"
    if "uid \<noteq> player1Id afterData" for uid
  proof (cases ok)
    case True
    then show ?thesis using that by (simp add: d)
  next
    case False
    then show ?thesis by (simp add: deliver_failed)
  qed
  with d deliver_failed show ?thesis by blast
qed

theorem bot_game_rating_write_witness:
  "deliver True ''g1'' bot_game_playing bot_game_finished 5000 5000 bot_store =
     \<lparr>games = [''g1'' \<mapsto> bot_game_finished\<lparr>eloCalculated := True, player1NewElo := Some 232,
                                           player2NewElo := Some 968\<rparr>],
      profiles = [''alice'' \<mapsto> \<lparr>elo = 232, lastUpdated = 5000\<rparr>]\<rparr>
   \<and> deliver False ''g1'' bot_game_playing bot_game_finished 5000 5000 bot_store = bot_store
   \<and> profiles (deliver True ''g1'' bot_game_playing bot_game_finished 5000 5000 bot_store)
        ''BOT-1000-u1'' = None"
proof -
  have g: "games bot_store ''g1'' = Some bot_game_finished" by (simp add: bot_store_def)
  show ?thesis
    using bot_game_rating_write [OF bot_event(1-4) g, of 5000 5000 True]
    by (simp add: bot_store_def bot_game_ratings_first bot_event(5))
qed

text \<open>
  The claim as stated fails in one point: the trigger does store \<open>player2NewElo\<close> on
  the game record of a bot game.
\<close>

theorem bot_rating_field_counterexample:
  "opponentType bot_game_finished = ''bot-1000''
   \<and> player2NewElo bot_game_finished = None
   \<and> map_option player2NewElo
        (games (deliver True ''g1'' bot_game_playing bot_game_finished 5000 5000 bot_store) ''g1'')
       = Some (Some 968)"
proof -
  have "opponentType bot_game_finished = ''bot-1000''" "player2NewElo bot_game_finished = None"
    by (simp_all add: bot_game_finished_eq bot_game_playing_def)
  moreover have "map_option player2NewElo (games (rated_once 5000) ''g1'') = Some (Some 968)"
    by (simp add: rated_once_def)
  ultimately show ?thesis by (simp only: first_delivery simp_thms)
qed

end
